theory Spec2Isabelle
  imports Main
begin

section \<open>The server preferences page of gns3-gui\<close>

text \<open>
  A shallow embedding of \<^verbatim>\<open>gns3/pages/server_preferences_page.py\<close>: the slots that
  add, delete and load remote servers, and \<^verbatim>\<open>savePreferences\<close>. The widgets the
  slots read and write are fields of a record; the calls on the collaborators
  (\<^verbatim>\<open>Servers.instance()\<close>, \<^verbatim>\<open>Topology.instance()\<close>, the message boxes, the
  connection worker) are the events of a trace, in the order the code makes them.
\<close>

subsection \<open>Python strings\<close>

text \<open>
  A Python \<^verbatim>\<open>str\<close> is a sequence of Unicode code points; a code point is a natural
  number. (Isabelle's own \<open>string\<close> is a list of bytes and cannot hold the ranges
  the host pattern names.)
\<close>

type_synonym pychar = nat
type_synonym pystr = "pychar list"

text \<open>
  \<^verbatim>\<open>str.isspace\<close> for one character: the code points CPython lists as whitespace
  (bidirectional type WS, B or S, or category Zs).
\<close>

definition isspace :: "pychar \<Rightarrow> bool" where
  "isspace c =
     ((9 \<le> c \<and> c \<le> 13) \<or> (28 \<le> c \<and> c \<le> 32) \<or> c = 133 \<or> c = 160 \<or> c = 5760 \<or>
      (8192 \<le> c \<and> c \<le> 8202) \<or> c = 8232 \<or> c = 8233 \<or> c = 8239 \<or> c = 8287 \<or>
      c = 12288)"

text \<open>\<^verbatim>\<open>s.strip()\<close>: leading and trailing whitespace removed.\<close>

definition strip :: "pystr \<Rightarrow> pystr" where
  "strip s = rev (dropWhile isspace (rev (dropWhile isspace s)))"

text \<open>
  \<^verbatim>\<open>s.lower()\<close> on the protocol selector's text. The selector offers ASCII protocol
  names; on ASCII \<^verbatim>\<open>lower\<close> maps \<^verbatim>\<open>A-Z\<close> to \<^verbatim>\<open>a-z\<close> and keeps the rest.
\<close>

definition lower_char :: "pychar \<Rightarrow> pychar" where
  "lower_char c = (if 65 \<le> c \<and> c \<le> 90 then c + 32 else c)"

definition lower :: "pystr \<Rightarrow> pystr" where
  "lower s = map lower_char s"

text \<open>The literal \<^verbatim>\<open>"ssh"\<close>.\<close>

definition ssh :: pystr where
  "ssh = [115, 115, 104]"

text \<open>\<^verbatim>\<open>"\n".join(names)\<close>.\<close>

fun join_newline :: "pystr list \<Rightarrow> pystr" where
  "join_newline [] = []"
| "join_newline [x] = x"
| "join_newline (x # y # ys) = x @ [10] @ join_newline (y # ys)"

subsection \<open>The host pattern\<close>

text \<open>
  The character class of
  \<^verbatim>\<open>r"^[a-zA-Z0-9\.{}-]+$"\<close> with the ranges U+0370-U+1CDF, U+2C00-U+30FF and U+4E00-U+9FBF put in:
  \<^verbatim>\<open>a-z\<close>, \<^verbatim>\<open>A-Z\<close>, \<^verbatim>\<open>0-9\<close>, the dot, the three Unicode ranges and the
  hyphen that closes the class.
\<close>

definition host_char :: "pychar \<Rightarrow> bool" where
  "host_char c =
     ((97 \<le> c \<and> c \<le> 122) \<or> (65 \<le> c \<and> c \<le> 90) \<or> (48 \<le> c \<and> c \<le> 57) \<or> c = 46 \<or>
      (880 \<le> c \<and> c \<le> 7391) \<or> (11264 \<le> c \<and> c \<le> 12543) \<or> (19968 \<le> c \<and> c \<le> 40895) \<or>
      c = 45)"

text \<open>
  \<^verbatim>\<open>re.match\<close> of that pattern: one or more characters of the class from the start
  of the string, then \<^verbatim>\<open>$\<close>, which holds at the end of the string and also just
  before a newline that ends it. The class has no newline, so the repetition stops
  at the first character outside it and \<^verbatim>\<open>$\<close> is tried there.
\<close>

definition host_match :: "pystr \<Rightarrow> bool" where
  "host_match s =
     (takeWhile host_char s \<noteq> [] \<and>
      (dropWhile host_char s = [] \<or> dropWhile host_char s = [10]))"

subsection \<open>Widgets and records\<close>

text \<open>The Python exceptions the slots can raise.\<close>

datatype py_error = OverflowError | AssertionError

text \<open>
  A \<^verbatim>\<open>QSpinBox\<close>: its range and its value. The ranges are set in the generated
  user interface module, so they are fields here.
\<close>

record spin_box =
  minimum :: int
  maximum :: int
  "value" :: int

text \<open>
  The integers of a spin box are C integers. PyQt raises \<^verbatim>\<open>OverflowError\<close> when
  \<^verbatim>\<open>setValue\<close> is given a Python integer outside their range; a value it accepts
  is kept inside the range of the spin box (Qt adjusts a value outside it to the
  nearest bound).
\<close>

definition c_int :: "int \<Rightarrow> bool" where
  "c_int v = (- 2147483648 \<le> v \<and> v \<le> 2147483647)"

definition setValue :: "int \<Rightarrow> spin_box \<Rightarrow> py_error + spin_box" where
  "setValue v sb =
     (if c_int v then Inr (sb\<lparr>value := max (minimum sb) (min (maximum sb) v)\<rparr>)
      else Inl OverflowError)"

text \<open>
  What Qt keeps true of a spin box: the range is a range of C integers and the
  value lies in it.
\<close>

definition valid_spin_box :: "spin_box \<Rightarrow> bool" where
  "valid_spin_box sb =
     (c_int (minimum sb) \<and> c_int (maximum sb) \<and> minimum sb \<le> value sb \<and> value sb \<le> maximum sb)"

text \<open>The settings dictionary of one remote server, with the keys the add slot writes.\<close>

record remote_server =
  protocol :: pystr
  host :: pystr
  port :: int
  user :: pystr
  ssh_port :: int
  ssh_key :: pystr

text \<open>
  A server identifier: the value of \<^verbatim>\<open>uuid.uuid4()\<close> for a server added on the
  page, or the key the servers service uses for one it already knows.
\<close>

datatype server_id = UUID nat | ServiceKey pystr

text \<open>
  A row of the tree widget: the four column texts (column 2 holds \<^verbatim>\<open>str(port)\<close>,
  kept here as the integer it prints), the attached settings and identifier.
\<close>

record tree_item =
  text0 :: pystr
  text1 :: pystr
  text2 :: int
  text3 :: pystr
  settings :: remote_server
  server_id :: server_id

text \<open>
  \<^verbatim>\<open>self._remote_servers\<close> is a Python dictionary: an association list in
  insertion order. Assignment replaces the value of a key that is present and
  appends otherwise; \<^verbatim>\<open>del\<close> removes the key.
\<close>

type_synonym remote_servers = "(server_id \<times> remote_server) list"

fun dict_set :: "server_id \<Rightarrow> remote_server \<Rightarrow> remote_servers \<Rightarrow> remote_servers" where
  "dict_set k v [] = [(k, v)]"
| "dict_set k v ((k', v') # d) = (if k' = k then (k, v) # d else (k', v') # dict_set k v d)"

definition dict_del :: "server_id \<Rightarrow> remote_servers \<Rightarrow> remote_servers" where
  "dict_del k d = filter (\<lambda>e. fst e \<noteq> k) d"

definition dict_values :: "remote_servers \<Rightarrow> remote_server list" where
  "dict_values d = map snd d"

text \<open>
  The host selector of the local server: the addresses it lists (text and data of
  an entry are the same address string) and the data of the current entry,
  \<open>None\<close> when there is none.
\<close>

record combo_box =
  addresses :: "pystr list"
  currentData :: "pystr option"

text \<open>The page: the dictionary of remote servers and the widgets the slots use.\<close>

record page =
  remote_servers :: remote_servers
  uiRemoteServersTreeWidget :: "tree_item list"
  uiRemoteServerProtocolComboBox :: pystr
  uiRemoteServerPortLineEdit :: pystr
  uiRemoteServerPortSpinBox :: spin_box
  uiRemoteServerUserLineEdit :: pystr
  uiRemoteServerSSHPortSpinBox :: spin_box
  uiRemoteServerSSHKeyLineEdit :: pystr
  uiLocalServerPathLineEdit :: pystr
  uiLocalServerHostComboBox :: combo_box
  uiLocalServerPortSpinBox :: spin_box
  uiLocalServerAutoStartCheckBox :: bool
  uiConsoleConnectionsToAnyIPCheckBox :: bool
  uiConsoleStartPortSpinBox :: spin_box
  uiConsoleEndPortSpinBox :: spin_box
  uiUDPStartPortSpinBox :: spin_box
  uiUDPEndPortSpinBox :: spin_box

subsection \<open>Messages and errors\<close>

text \<open>
  The dialogs the page opens, one constructor for each message text of the source,
  with the values the text is formatted with.
\<close>

datatype message =
    InvalidHostname pystr
  | InvalidPortNumber int
  | MissingUserLogin
  | MissingSSHKey
  | AlreadyDefined
  | InvalidConsolePortRange int int
  | InvalidUDPPortRange int int
  | CouldNotFindLocalServer pystr
  | NotAnExecutable pystr
  | CloseProjectOrDeleteNodes pystr
  | CouldNotStartLocalServer pystr

text \<open>The names the specification gives to the failures the dialogs report.\<close>

datatype error =
    InvalidHost
  | InvalidPort
  | MissingCredential
  | DuplicateServer
  | InvalidRange
  | ServerPathNotFound
  | ServerNotExecutable
  | ServerInUse
  | StartFailed

fun error_of :: "message \<Rightarrow> error" where
  "error_of (InvalidHostname h) = InvalidHost"
| "error_of (InvalidPortNumber p) = InvalidPort"
| "error_of MissingUserLogin = MissingCredential"
| "error_of MissingSSHKey = MissingCredential"
| "error_of AlreadyDefined = DuplicateServer"
| "error_of (InvalidConsolePortRange a b) = InvalidRange"
| "error_of (InvalidUDPPortRange a b) = InvalidRange"
| "error_of (CouldNotFindLocalServer p) = ServerPathNotFound"
| "error_of (NotAnExecutable p) = ServerNotExecutable"
| "error_of (CloseProjectOrDeleteNodes n) = ServerInUse"
| "error_of (CouldNotStartLocalServer p) = StartFailed"

subsection \<open>Adding, deleting and loading remote servers\<close>

text \<open>
  The loop of \<^verbatim>\<open>_remoteServerAddSlot\<close> over \<^verbatim>\<open>self._remote_servers.values()\<close>:
  it stops at the first server with the same protocol, host, port and user.
\<close>

fun already_defined :: "pystr \<Rightarrow> pystr \<Rightarrow> int \<Rightarrow> pystr \<Rightarrow> remote_server list \<Rightarrow> bool" where
  "already_defined pr h p u [] = False"
| "already_defined pr h p u (server # servers) =
     (if protocol server = pr \<and> host server = h \<and> port server = p \<and> user server = u
      then True
      else already_defined pr h p u servers)"

text \<open>
  \<^verbatim>\<open>_remoteServerAddSlot\<close>. The first argument is the value \<^verbatim>\<open>uuid.uuid4()\<close>
  returns in this call. The result is the dialog shown (\<open>None\<close> when the server
  was added), the exception raised (\<open>None\<close> when the slot returns) and the page
  afterwards. The spin box always holds an integer, so \<^verbatim>\<open>port is None\<close> is never
  true and the port test is \<^verbatim>\<open>port < 1\<close>. The last \<^verbatim>\<open>setValue\<close> comes after the
  server was put into the tree and the dictionary: when it raises, they keep the
  new server.
\<close>

definition remoteServerAddSlot ::
  "server_id \<Rightarrow> page \<Rightarrow> message option \<times> py_error option \<times> page" where
  "remoteServerAddSlot uuid4 self =
     (let protocol = lower (uiRemoteServerProtocolComboBox self);
          host = strip (uiRemoteServerPortLineEdit self);
          port = value (uiRemoteServerPortSpinBox self);
          user = strip (uiRemoteServerUserLineEdit self);
          ssh_port = value (uiRemoteServerSSHPortSpinBox self);
          ssh_key = strip (uiRemoteServerSSHKeyLineEdit self)
      in
        if \<not> host_match host then (Some (InvalidHostname host), None, self)
        else if port < 1 then (Some (InvalidPortNumber port), None, self)
        else if protocol = ssh \<and> length user = 0 then (Some MissingUserLogin, None, self)
        else if protocol = ssh \<and> length ssh_key = 0 then (Some MissingSSHKey, None, self)
        else if already_defined protocol host port user (dict_values (remote_servers self))
          then (Some AlreadyDefined, None, self)
        else
          let settings = \<lparr>protocol = protocol, host = host, port = port, user = user,
                            ssh_port = ssh_port, ssh_key = ssh_key\<rparr>;
              item = \<lparr>text0 = protocol, text1 = host, text2 = port, text3 = user,
                        settings = settings, server_id = uuid4\<rparr>;
              added = self\<lparr>uiRemoteServersTreeWidget := uiRemoteServersTreeWidget self @ [item],
                            remote_servers :=
                              dict_set (server_id item) settings (remote_servers self)\<rparr>
          in case setValue (value (uiRemoteServerPortSpinBox added) + 1)
                    (uiRemoteServerPortSpinBox added) of
               Inl e \<Rightarrow> (None, Some e, added)
             | Inr sb \<Rightarrow> (None, None, added\<lparr>uiRemoteServerPortSpinBox := sb\<rparr>))"

text \<open>
  \<^verbatim>\<open>_remoteServerDeleteSlot\<close>. The first argument is the row of the current item
  of the tree widget, \<open>None\<close> when there is none (a row the tree does not have is no
  current item either). The \<^verbatim>\<open>assert\<close> raises when the item's identifier is not
  a key of the dictionary. The result is the exception raised, if any, and the
  page afterwards.
\<close>

definition remoteServerDeleteSlot :: "nat option \<Rightarrow> page \<Rightarrow> py_error option \<times> page" where
  "remoteServerDeleteSlot currentItem self =
     (case currentItem of
        None \<Rightarrow> (None, self)
      | Some row \<Rightarrow>
          if length (uiRemoteServersTreeWidget self) \<le> row then (None, self)
          else
            let item = uiRemoteServersTreeWidget self ! row in
            if server_id item \<notin> fst ` set (remote_servers self) then (Some AssertionError, self)
            else (None,
                  self\<lparr>remote_servers := dict_del (server_id item) (remote_servers self),
                        uiRemoteServersTreeWidget :=
                          take row (uiRemoteServersTreeWidget self) @
                          drop (Suc row) (uiRemoteServersTreeWidget self)\<rparr>))"

subsection \<open>Local server settings\<close>

text \<open>
  The dictionary of local server settings, with the twelve keys
  \<^verbatim>\<open>savePreferences\<close> writes. The host is the data of the selector's current entry,
  which is \<^verbatim>\<open>None\<close> when the selector has no current entry. The settings the
  servers service returns are taken with the same twelve keys, so that the
  comparison \<^verbatim>\<open>new_settings != current_settings\<close> is inequality of records.
\<close>

record local_server_settings =
  path :: pystr
  local_host :: "pystr option"
  local_port :: int
  auto_start :: bool
  allow_console_from_anywhere :: bool
  console_start_port_range :: int
  console_end_port_range :: int
  udp_start_port_range :: int
  udp_end_port_range :: int
  images_path :: pystr
  projects_path :: pystr
  report_errors :: bool

text \<open>
  \<^verbatim>\<open>_populateWidgets\<close>, statement by statement: \<^verbatim>\<open>findData\<close> finds the host among
  the selector's entries, and the current entry changes only when it is found;
  each \<^verbatim>\<open>setValue\<close> can raise, and the statements after it are not run then. The
  result is the exception raised, if any, and the page afterwards.
\<close>

definition populateWidgets :: "local_server_settings \<Rightarrow> page \<Rightarrow> py_error option \<times> page" where
  "populateWidgets s self =
     (let self1 =
            self\<lparr>uiLocalServerPathLineEdit := path s,
                  uiLocalServerHostComboBox :=
                    (case local_host s of
                       None \<Rightarrow> uiLocalServerHostComboBox self
                     | Some h \<Rightarrow>
                         if h \<in> set (addresses (uiLocalServerHostComboBox self))
                         then (uiLocalServerHostComboBox self)\<lparr>currentData := Some h\<rparr>
                         else uiLocalServerHostComboBox self)\<rparr>
      in
      case setValue (local_port s) (uiLocalServerPortSpinBox self1) of
        Inl e \<Rightarrow> (Some e, self1)
      | Inr sb1 \<Rightarrow>
      let self2 = self1\<lparr>uiLocalServerPortSpinBox := sb1,
                         uiLocalServerAutoStartCheckBox := auto_start s,
                         uiConsoleConnectionsToAnyIPCheckBox := allow_console_from_anywhere s\<rparr>
      in
      case setValue (console_start_port_range s) (uiConsoleStartPortSpinBox self2) of
        Inl e \<Rightarrow> (Some e, self2)
      | Inr sb2 \<Rightarrow>
      let self3 = self2\<lparr>uiConsoleStartPortSpinBox := sb2\<rparr> in
      case setValue (console_end_port_range s) (uiConsoleEndPortSpinBox self3) of
        Inl e \<Rightarrow> (Some e, self3)
      | Inr sb3 \<Rightarrow>
      let self4 = self3\<lparr>uiConsoleEndPortSpinBox := sb3\<rparr> in
      case setValue (udp_start_port_range s) (uiUDPStartPortSpinBox self4) of
        Inl e \<Rightarrow> (Some e, self4)
      | Inr sb4 \<Rightarrow>
      let self5 = self4\<lparr>uiUDPStartPortSpinBox := sb4\<rparr> in
      case setValue (udp_end_port_range s) (uiUDPEndPortSpinBox self5) of
        Inl e \<Rightarrow> (Some e, self5)
      | Inr sb5 \<Rightarrow> (None, self5\<lparr>uiUDPEndPortSpinBox := sb5\<rparr>))"

text \<open>
  The loop of \<^verbatim>\<open>loadPreferences\<close> over \<^verbatim>\<open>servers.remoteServers().items()\<close>. A
  server of the service is taken as its settings dictionary, whose entries its
  accessors \<^verbatim>\<open>protocol()\<close>, \<^verbatim>\<open>host()\<close>, \<^verbatim>\<open>port()\<close> and \<^verbatim>\<open>user()\<close> return.
\<close>

fun load_remote_servers :: "(server_id \<times> remote_server) list \<Rightarrow> page \<Rightarrow> page" where
  "load_remote_servers [] self = self"
| "load_remote_servers ((sid, server) # items) self =
     load_remote_servers items
       (self\<lparr>remote_servers := dict_set sid server (remote_servers self),
              uiRemoteServersTreeWidget := uiRemoteServersTreeWidget self @
                [\<lparr>text0 = protocol server, text1 = host server, text2 = port server,
                  text3 = user server, settings = server, server_id = sid\<rparr>]\<rparr>)"

text \<open>
  \<^verbatim>\<open>loadPreferences\<close>, from what \<^verbatim>\<open>servers.localServerSettings()\<close> and
  \<^verbatim>\<open>servers.remoteServers()\<close> return. \<^verbatim>\<open>_populateWidgets\<close> is called first:
  when it raises, the dictionary and the tree are not cleared.
\<close>

definition loadPreferences ::
  "local_server_settings \<Rightarrow> (server_id \<times> remote_server) list \<Rightarrow> page \<Rightarrow> py_error option \<times> page"
  where
  "loadPreferences local_server_settings remoteServers self =
     (case populateWidgets local_server_settings self of
        (Some e, populated) \<Rightarrow> (Some e, populated)
      | (None, populated) \<Rightarrow>
          (None,
           load_remote_servers remoteServers
             (populated\<lparr>remote_servers := [], uiRemoteServersTreeWidget := []\<rparr>)))"

subsection \<open>Saving\<close>

text \<open>
  What \<^verbatim>\<open>savePreferences\<close> reads from outside the page: the settings the servers
  service holds, the two file system tests on a path, the nodes of the topology
  (name, and whether the node's server is the local one), and whether
  \<^verbatim>\<open>startLocalServer\<close> succeeds.
\<close>

record environment =
  localServerSettings :: local_server_settings
  isfile :: "pystr \<Rightarrow> bool"
  access_X_OK :: "pystr \<Rightarrow> bool"
  nodes :: "(pystr \<times> bool) list"
  startLocalServer :: bool

text \<open>What \<^verbatim>\<open>savePreferences\<close> does outside the page, call by call.\<close>

datatype event =
    Critical message
  | MessageBox message
  | StopLocalServer bool
  | SetLocalServerSettings local_server_settings
  | UpdateRemoteServers remote_servers
  | Save
  | StartLocalServer
  | WaitForConnection "pystr option" int

text \<open>The dictionary \<^verbatim>\<open>new_settings\<close>.\<close>

definition new_settings :: "local_server_settings \<Rightarrow> page \<Rightarrow> local_server_settings" where
  "new_settings current_settings self =
     \<lparr>path = uiLocalServerPathLineEdit self,
      local_host = currentData (uiLocalServerHostComboBox self),
      local_port = value (uiLocalServerPortSpinBox self),
      auto_start = uiLocalServerAutoStartCheckBox self,
      allow_console_from_anywhere = uiConsoleConnectionsToAnyIPCheckBox self,
      console_start_port_range = value (uiConsoleStartPortSpinBox self),
      console_end_port_range = value (uiConsoleEndPortSpinBox self),
      udp_start_port_range = value (uiUDPStartPortSpinBox self),
      udp_end_port_range = value (uiUDPEndPortSpinBox self),
      images_path = images_path current_settings,
      projects_path = projects_path current_settings,
      report_errors = report_errors current_settings\<rparr>"

text \<open>The loop that collects the names of the nodes on the local server.\<close>

fun local_nodes :: "(pystr \<times> bool) list \<Rightarrow> pystr list" where
  "local_nodes [] = []"
| "local_nodes ((name, isLocal) # ns) =
     (if isLocal then name # local_nodes ns else local_nodes ns)"

text \<open>
  The end of \<^verbatim>\<open>savePreferences\<close>, from \<^verbatim>\<open>servers.setLocalServerSettings\<close> on,
  with the value of \<^verbatim>\<open>restart_local_server\<close>.
\<close>

definition save_and_restart ::
  "environment \<Rightarrow> page \<Rightarrow> local_server_settings \<Rightarrow> bool \<Rightarrow> event list" where
  "save_and_restart env self new restart_local_server =
     [SetLocalServerSettings new, UpdateRemoteServers (remote_servers self), Save] @
     (if restart_local_server
      then [StopLocalServer True, StartLocalServer] @
           (if startLocalServer env
            then [WaitForConnection (local_host new) (local_port new)]
            else [Critical (CouldNotStartLocalServer (path new))])
      else [])"

text \<open>\<^verbatim>\<open>savePreferences\<close>: the calls it makes, in order.\<close>

definition savePreferences :: "environment \<Rightarrow> page \<Rightarrow> event list" where
  "savePreferences env self =
     (let current_settings = localServerSettings env;
          new = new_settings current_settings self
      in
        if console_end_port_range new \<le> console_start_port_range new
        then [Critical (InvalidConsolePortRange (console_start_port_range new)
                          (console_end_port_range new))]
        else if udp_end_port_range new \<le> udp_start_port_range new
        then [Critical (InvalidUDPPortRange (udp_start_port_range new)
                          (udp_end_port_range new))]
        else if auto_start new then
          (if \<not> isfile env (path new)
           then [Critical (CouldNotFindLocalServer (path new))]
           else
             (if \<not> access_X_OK env (path new)
              then [Critical (NotAnExecutable (path new))] else []) @
             (if new \<noteq> current_settings then
                (if local_nodes (nodes env) \<noteq> []
                 then [MessageBox (CloseProjectOrDeleteNodes
                                     (join_newline (local_nodes (nodes env))))]
                 else save_and_restart env self new True)
              else save_and_restart env self new False))
        else [StopLocalServer True] @ save_and_restart env self new False)"

subsection \<open>Reading a trace\<close>

text \<open>The events that write settings, and the events that touch the server process.\<close>

fun is_write :: "event \<Rightarrow> bool" where
  "is_write (SetLocalServerSettings s) = True"
| "is_write (UpdateRemoteServers d) = True"
| "is_write Save = True"
| "is_write e = False"

fun is_stop :: "event \<Rightarrow> bool" where
  "is_stop (StopLocalServer w) = True"
| "is_stop e = False"

fun is_start :: "event \<Rightarrow> bool" where
  "is_start StartLocalServer = True"
| "is_start e = False"

fun is_wait :: "event \<Rightarrow> bool" where
  "is_wait (WaitForConnection h p) = True"
| "is_wait e = False"

text \<open>The failures a trace reports, in order, by the names of the specification.\<close>

fun errors :: "event list \<Rightarrow> error list" where
  "errors [] = []"
| "errors (Critical m # es) = error_of m # errors es"
| "errors (MessageBox m # es) = error_of m # errors es"
| "errors (e # es) = errors es"

text \<open>The candidate settings of a save: \<^verbatim>\<open>new_settings\<close> built from the page.\<close>

abbreviation candidate :: "environment \<Rightarrow> page \<Rightarrow> local_server_settings" where
  "candidate env self \<equiv> new_settings (localServerSettings env) self"

subsection \<open>Reading the add form\<close>

text \<open>
  The values \<^verbatim>\<open>_remoteServerAddSlot\<close> reads from the widgets, and the settings
  dictionary it builds from them.
\<close>

abbreviation form_protocol :: "page \<Rightarrow> pystr" where
  "form_protocol self \<equiv> lower (uiRemoteServerProtocolComboBox self)"

abbreviation form_host :: "page \<Rightarrow> pystr" where
  "form_host self \<equiv> strip (uiRemoteServerPortLineEdit self)"

abbreviation form_port :: "page \<Rightarrow> int" where
  "form_port self \<equiv> value (uiRemoteServerPortSpinBox self)"

abbreviation form_user :: "page \<Rightarrow> pystr" where
  "form_user self \<equiv> strip (uiRemoteServerUserLineEdit self)"

abbreviation form_ssh_key :: "page \<Rightarrow> pystr" where
  "form_ssh_key self \<equiv> strip (uiRemoteServerSSHKeyLineEdit self)"

definition form_settings :: "page \<Rightarrow> remote_server" where
  "form_settings self =
     \<lparr>protocol = form_protocol self, host = form_host self, port = form_port self,
      user = form_user self, ssh_port = value (uiRemoteServerSSHPortSpinBox self),
      ssh_key = form_ssh_key self\<rparr>"

subsection \<open>The uniqueness invariant\<close>

text \<open>
  The protocol, host, port and user of a remote server, and the invariant that no
  two entries of the dictionary agree on all four.
\<close>

definition quadruple :: "remote_server \<Rightarrow> pystr \<times> pystr \<times> int \<times> pystr" where
  "quadruple server = (protocol server, host server, port server, user server)"

definition unique_quadruples :: "remote_servers \<Rightarrow> bool" where
  "unique_quadruples d = distinct (map quadruple (dict_values d))"

subsection \<open>Concrete pages and environments\<close>

text \<open>
  An ASCII string as a Python string, and a spin box with the range 0 to 65535.
\<close>

definition py :: "string \<Rightarrow> pystr" where
  "py s = map of_char s"

definition spin :: "int \<Rightarrow> spin_box" where
  "spin v = \<lparr>minimum = 0, maximum = 65535, value = v\<rparr>"

text \<open>
  The settings of the example of the specification, a page whose widgets hold
  exactly these settings, and an environment where the server path is an
  executable file, no node is on the local server and the server starts.
\<close>

definition example_settings :: local_server_settings where
  "example_settings =
     \<lparr>path = py ''/usr/bin/gns3server'', local_host = Some (py ''127.0.0.1''),
      local_port = 8000, auto_start = True, allow_console_from_anywhere = False,
      console_start_port_range = 2000, console_end_port_range = 2999,
      udp_start_port_range = 10000, udp_end_port_range = 20000,
      images_path = py ''images'', projects_path = py ''projects'', report_errors = True\<rparr>"

definition example_page :: page where
  "example_page =
     \<lparr>remote_servers = [], uiRemoteServersTreeWidget = [],
      uiRemoteServerProtocolComboBox = py ''HTTP'',
      uiRemoteServerPortLineEdit = py ''example.org'',
      uiRemoteServerPortSpinBox = spin 8000,
      uiRemoteServerUserLineEdit = [],
      uiRemoteServerSSHPortSpinBox = spin 22,
      uiRemoteServerSSHKeyLineEdit = [],
      uiLocalServerPathLineEdit = py ''/usr/bin/gns3server'',
      uiLocalServerHostComboBox =
        \<lparr>addresses = [py ''127.0.0.1''], currentData = Some (py ''127.0.0.1'')\<rparr>,
      uiLocalServerPortSpinBox = spin 8000,
      uiLocalServerAutoStartCheckBox = True,
      uiConsoleConnectionsToAnyIPCheckBox = False,
      uiConsoleStartPortSpinBox = spin 2000,
      uiConsoleEndPortSpinBox = spin 2999,
      uiUDPStartPortSpinBox = spin 10000,
      uiUDPEndPortSpinBox = spin 20000\<rparr>"

definition example_env :: environment where
  "example_env =
     \<lparr>localServerSettings = example_settings,
      isfile = (\<lambda>p. p = py ''/usr/bin/gns3server''),
      access_X_OK = (\<lambda>p. p = py ''/usr/bin/gns3server''),
      nodes = [],
      startLocalServer = True\<rparr>"

text \<open>The same environment with two of three nodes on the local server.\<close>

definition in_use_env :: environment where
  "in_use_env = example_env\<lparr>nodes := [(py ''R1'', True), (py ''PC1'', False), (py ''R2'', True)]\<rparr>"

text \<open>
  A page whose add form describes an SSH server, and the page after that server
  was added, the port put back and the key field emptied.
\<close>

definition ssh_page :: page where
  "ssh_page = example_page\<lparr>uiRemoteServerProtocolComboBox := py ''SSH'',
                            uiRemoteServerUserLineEdit := py ''admin'',
                            uiRemoteServerSSHKeyLineEdit := py ''/home/admin/.ssh/id_rsa''\<rparr>"

definition ssh_page_again :: page where
  "ssh_page_again =
     (snd (snd (remoteServerAddSlot (UUID 11) ssh_page)))
       \<lparr>uiRemoteServerPortSpinBox := spin 8000, uiRemoteServerSSHKeyLineEdit := []\<rparr>"

text \<open>
  Two servers of the servers service with the same protocol, host, port and user
  under two identifiers.
\<close>

definition duplicate_servers :: "(server_id \<times> remote_server) list" where
  "duplicate_servers =
     [(ServiceKey (py ''first''),
       \<lparr>protocol = py ''http'', host = py ''example.org'', port = 8000, user = [],
        ssh_port = 22, ssh_key = []\<rparr>),
      (ServiceKey (py ''second''),
       \<lparr>protocol = py ''http'', host = py ''example.org'', port = 8000, user = [],
        ssh_port = 22, ssh_key = []\<rparr>)]"

text \<open>The page after the SSH server was added under the identifier \<open>UUID 11\<close>.\<close>

definition collision_page :: page where
  "collision_page = snd (snd (remoteServerAddSlot (UUID 11) ssh_page))"

section \<open>Properties\<close>

subsection \<open>The traces of \<^verbatim>\<open>savePreferences\<close>\<close>

text \<open>One lemma for each way through \<^verbatim>\<open>savePreferences\<close>.\<close>

lemma save_console_invalid:
  "console_end_port_range (candidate env self) \<le> console_start_port_range (candidate env self) \<Longrightarrow>
   savePreferences env self =
     [Critical (InvalidConsolePortRange (console_start_port_range (candidate env self))
        (console_end_port_range (candidate env self)))]"
  by (simp add: savePreferences_def Let_def)

lemma save_udp_invalid:
  "console_start_port_range (candidate env self) < console_end_port_range (candidate env self) \<Longrightarrow>
   udp_end_port_range (candidate env self) \<le> udp_start_port_range (candidate env self) \<Longrightarrow>
   savePreferences env self =
     [Critical (InvalidUDPPortRange (udp_start_port_range (candidate env self))
        (udp_end_port_range (candidate env self)))]"
  by (simp add: savePreferences_def Let_def)

lemma save_path_missing:
  "console_start_port_range (candidate env self) < console_end_port_range (candidate env self) \<Longrightarrow>
   udp_start_port_range (candidate env self) < udp_end_port_range (candidate env self) \<Longrightarrow>
   auto_start (candidate env self) \<Longrightarrow> \<not> isfile env (path (candidate env self)) \<Longrightarrow>
   savePreferences env self = [Critical (CouldNotFindLocalServer (path (candidate env self)))]"
  by (simp add: savePreferences_def Let_def)

lemma save_in_use:
  "console_start_port_range (candidate env self) < console_end_port_range (candidate env self) \<Longrightarrow>
   udp_start_port_range (candidate env self) < udp_end_port_range (candidate env self) \<Longrightarrow>
   auto_start (candidate env self) \<Longrightarrow> isfile env (path (candidate env self)) \<Longrightarrow>
   candidate env self \<noteq> localServerSettings env \<Longrightarrow> local_nodes (nodes env) \<noteq> [] \<Longrightarrow>
   savePreferences env self =
     (if access_X_OK env (path (candidate env self)) then []
      else [Critical (NotAnExecutable (path (candidate env self)))]) @
     [MessageBox (CloseProjectOrDeleteNodes (join_newline (local_nodes (nodes env))))]"
  by (simp add: savePreferences_def Let_def)

lemma save_auto_start:
  "console_start_port_range (candidate env self) < console_end_port_range (candidate env self) \<Longrightarrow>
   udp_start_port_range (candidate env self) < udp_end_port_range (candidate env self) \<Longrightarrow>
   auto_start (candidate env self) \<Longrightarrow> isfile env (path (candidate env self)) \<Longrightarrow>
   candidate env self = localServerSettings env \<or> local_nodes (nodes env) = [] \<Longrightarrow>
   savePreferences env self =
     (if access_X_OK env (path (candidate env self)) then []
      else [Critical (NotAnExecutable (path (candidate env self)))]) @
     [SetLocalServerSettings (candidate env self), UpdateRemoteServers (remote_servers self), Save] @
     (if candidate env self \<noteq> localServerSettings env
      then [StopLocalServer True, StartLocalServer,
            if startLocalServer env
            then WaitForConnection (local_host (candidate env self)) (local_port (candidate env self))
            else Critical (CouldNotStartLocalServer (path (candidate env self)))]
      else [])"
  by (auto simp add: savePreferences_def save_and_restart_def Let_def)

lemma save_no_auto_start:
  "console_start_port_range (candidate env self) < console_end_port_range (candidate env self) \<Longrightarrow>
   udp_start_port_range (candidate env self) < udp_end_port_range (candidate env self) \<Longrightarrow>
   \<not> auto_start (candidate env self) \<Longrightarrow>
   savePreferences env self =
     [StopLocalServer True, SetLocalServerSettings (candidate env self),
      UpdateRemoteServers (remote_servers self), Save]"
  by (simp add: savePreferences_def save_and_restart_def Let_def)

lemma local_nodes_filter: "local_nodes ns = map fst (filter snd ns)"
  by (induction ns rule: local_nodes.induct) auto

lemma candidate_example: "candidate example_env example_page = example_settings"
  by (simp add: new_settings_def example_env_def example_page_def example_settings_def spin_def)

lemmas example_defs =
  example_env_def example_page_def example_settings_def in_use_env_def spin_def py_def
  new_settings_def

subsection \<open>Strings, the host pattern and the dictionary\<close>

text \<open>
  A stripped string does not end in whitespace, so the newline \<^verbatim>\<open>$\<close> tolerates
  cannot occur: on a stripped string the pattern matches exactly the non-empty
  strings of characters of the class.
\<close>

lemma strip_last_not_space: "strip s \<noteq> [] \<Longrightarrow> \<not> isspace (last (strip s))"
proof -
  assume ne: "strip s \<noteq> []"
  let ?t = "dropWhile isspace (rev (dropWhile isspace s))"
  from ne have t: "?t \<noteq> []" by (simp add: strip_def)
  then have "\<not> isspace (hd ?t)" by (rule hd_dropWhile)
  moreover have "last (strip s) = hd ?t" using t by (simp add: strip_def last_rev)
  ultimately show ?thesis by simp
qed

lemma host_match_no_newline:
  assumes "s = [] \<or> \<not> isspace (last s)"
  shows "host_match s = (s \<noteq> [] \<and> list_all host_char s)"
proof (cases "list_all host_char s")
  case True
  then have tw: "takeWhile host_char s = s" and dw: "dropWhile host_char s = []"
    by (simp_all add: list_all_iff)
  show ?thesis unfolding host_match_def tw dw using True by simp
next
  case False
  then have d: "dropWhile host_char s \<noteq> []" by (simp add: list_all_iff)
  have "dropWhile host_char s \<noteq> [10]"
  proof
    assume e: "dropWhile host_char s = [10]"
    have "s = takeWhile host_char s @ dropWhile host_char s" by simp
    with e have "s = takeWhile host_char s @ [10]" by simp
    then have "s \<noteq> []" "last s = 10" by (metis snoc_eq_iff_butlast)+
    moreover have "isspace 10" by (simp add: isspace_def)
    ultimately show False using assms by simp
  qed
  with d False show ?thesis by (simp add: host_match_def)
qed

lemma host_match_strip:
  "host_match (strip s) = (strip s \<noteq> [] \<and> list_all host_char (strip s))"
  using strip_last_not_space [of s] by (intro host_match_no_newline) blast

lemma already_defined_iff:
  "already_defined pr h p u servers = ((pr, h, p, u) \<in> quadruple ` set servers)"
  by (induction servers) (auto simp: quadruple_def)

lemma dict_set_value: "(a, b) \<in> set (dict_set k v d) \<Longrightarrow> b = v \<or> b \<in> snd ` set d"
  by (induction d) (force split: if_splits)+

lemma dict_set_values: "snd ` set (dict_set k v d) \<subseteq> insert v (snd ` set d)"
  using dict_set_value by fastforce

lemma dict_set_fresh: "k \<notin> fst ` set d \<Longrightarrow> dict_set k v d = d @ [(k, v)]"
  by (induction d) auto

lemma dict_set_mem: "(k, v) \<in> set (dict_set k v d)"
  by (induction d) auto

lemma dict_set_distinct:
  "distinct (map f (map snd d)) \<Longrightarrow> f v \<notin> f ` snd ` set d \<Longrightarrow>
   distinct (map f (map snd (dict_set k v d)))"
proof (induction d)
  case Nil
  then show ?case by simp
next
  case (Cons e d)
  obtain k' v' where e: "e = (k', v')" by (cases e)
  show ?case
  proof (cases "k' = k")
    case True
    with Cons.prems e show ?thesis by (auto simp: image_iff)
  next
    case False
    have "f v' \<notin> f ` snd ` set (dict_set k v d)"
    proof
      assume "f v' \<in> f ` snd ` set (dict_set k v d)"
      then obtain w where w: "w \<in> snd ` set (dict_set k v d)" "f v' = f w" by blast
      with dict_set_values [of k v d] have "w = v \<or> w \<in> snd ` set d" by blast
      with w Cons.prems e show False by (auto simp: image_iff)
    qed
    moreover have "distinct (map f (map snd (dict_set k v d)))"
      using Cons.IH Cons.prems e by auto
    ultimately show ?thesis using False e by (simp add: image_image)
  qed
qed

lemma dict_set_once:
  "v \<notin> snd ` set d \<Longrightarrow> length (filter (\<lambda>e. snd e = v) (dict_set k v d)) = 1"
proof (induction d)
  case Nil
  then show ?case by simp
next
  case (Cons e d)
  have "filter (\<lambda>e. snd e = v) d = []" using Cons.prems by (auto simp: filter_empty_conv)
  with Cons show ?case by (cases e) auto
qed

lemma load_remote_servers_dict:
  "distinct (map fst items) \<Longrightarrow> fst ` set items \<inter> fst ` set (remote_servers self) = {} \<Longrightarrow>
   remote_servers (load_remote_servers items self) = remote_servers self @ items"
proof (induction items arbitrary: self)
  case Nil
  then show ?case by simp
next
  case (Cons e items)
  obtain k v where e: "e = (k, v)" by (cases e)
  from Cons.prems e have k: "k \<notin> fst ` set (remote_servers self)" by auto
  then have s: "dict_set k v (remote_servers self) = remote_servers self @ [(k, v)]"
    by (rule dict_set_fresh)
  show ?case using Cons.prems e s
    by (simp add: Cons.IH) 
qed

subsection \<open>The add, delete and load slots\<close>

lemmas add_defs =
  remoteServerAddSlot_def Let_def strip_def lower_def lower_char_def host_match_def host_char_def
  isspace_def ssh_def setValue_def c_int_def dict_values_def

lemma dict_set_others:
  "filter (\<lambda>e. fst e \<noteq> k) (dict_set k v d) = filter (\<lambda>e. fst e \<noteq> k) d"
  by (induction d) auto

lemma dict_set_keys: "k \<in> fst ` set d \<Longrightarrow> map fst (dict_set k v d) = map fst d"
  by (induction d) force+

lemma add_failure_keeps_page:
  "fst (remoteServerAddSlot uuid4 self) \<noteq> None \<Longrightarrow>
   snd (remoteServerAddSlot uuid4 self) = (None, self)"
  by (simp add: remoteServerAddSlot_def Let_def split: if_splits sum.splits)

lemma add_success_page:
  assumes "fst (remoteServerAddSlot uuid4 self) = None"
  shows "snd (remoteServerAddSlot uuid4 self) =
           (if c_int (form_port self + 1) then None else Some OverflowError,
            self\<lparr>uiRemoteServersTreeWidget := uiRemoteServersTreeWidget self @
                    [\<lparr>text0 = form_protocol self, text1 = form_host self, text2 = form_port self,
                      text3 = form_user self, settings = form_settings self, server_id = uuid4\<rparr>],
                  remote_servers := dict_set uuid4 (form_settings self) (remote_servers self),
                  uiRemoteServerPortSpinBox :=
                    if c_int (form_port self + 1)
                    then (uiRemoteServerPortSpinBox self)
                           \<lparr>value := max (minimum (uiRemoteServerPortSpinBox self))
                                       (min (maximum (uiRemoteServerPortSpinBox self))
                                          (form_port self + 1))\<rparr>
                    else uiRemoteServerPortSpinBox self\<rparr>)"
    and "\<not> already_defined (form_protocol self) (form_host self) (form_port self) (form_user self)
            (dict_values (remote_servers self))"
    and "1 \<le> form_port self"
  using assms
  by (auto simp add: remoteServerAddSlot_def Let_def form_settings_def setValue_def
      split: if_splits sum.splits)

lemma add_success_not_present:
  assumes "fst (remoteServerAddSlot uuid4 self) = None"
  shows "quadruple (form_settings self) \<notin> quadruple ` snd ` set (remote_servers self)"
  using add_success_page(2) [OF assms]
  by (simp add: already_defined_iff dict_values_def quadruple_def form_settings_def)

lemma add_keeps_unique:
  assumes "unique_quadruples (remote_servers self)"
  shows "unique_quadruples (remote_servers (snd (snd (remoteServerAddSlot uuid4 self))))"
proof (cases "fst (remoteServerAddSlot uuid4 self)")
  case None
  have "distinct (map quadruple (map snd (dict_set uuid4 (form_settings self) (remote_servers self))))"
    using assms add_success_not_present [OF None]
    by (intro dict_set_distinct) (simp_all add: unique_quadruples_def dict_values_def)
  then show ?thesis
    by (simp add: add_success_page(1) [OF None] unique_quadruples_def dict_values_def)
next
  case (Some m)
  then show ?thesis using assms by (simp add: add_failure_keeps_page)
qed

lemma delete_keeps_unique:
  assumes "unique_quadruples (remote_servers self)"
  shows "unique_quadruples (remote_servers (snd (remoteServerDeleteSlot currentItem self)))"
proof -
  have "unique_quadruples (dict_del k (remote_servers self))" for k
    using assms distinct_map_filter [of "quadruple \<circ> snd" "remote_servers self" "\<lambda>e. fst e \<noteq> k"]
    by (simp add: unique_quadruples_def dict_values_def dict_del_def)
  with assms show ?thesis
    by (auto simp: remoteServerDeleteSlot_def Let_def split: option.splits if_splits)
qed

lemma populateWidgets_raises:
  "(fst (populateWidgets s self) = None) =
     (c_int (local_port s) \<and> c_int (console_start_port_range s) \<and>
      c_int (console_end_port_range s) \<and> c_int (udp_start_port_range s) \<and>
      c_int (udp_end_port_range s))"
  by (simp add: populateWidgets_def Let_def setValue_def split: sum.splits)

lemma populateWidgets_remote_servers:
  "remote_servers (snd (populateWidgets s self)) = remote_servers self"
  by (simp add: populateWidgets_def Let_def setValue_def split: sum.splits)

lemma load_raises:
  "fst (loadPreferences s remoteServers self) = fst (populateWidgets s self)"
  by (cases "populateWidgets s self") (auto simp add: loadPreferences_def split: option.splits)

lemma load_dict:
  assumes "distinct (map fst remoteServers)"
  shows "remote_servers (snd (loadPreferences s remoteServers self)) =
           (if fst (loadPreferences s remoteServers self) = None then remoteServers
            else remote_servers self)"
proof (cases "populateWidgets s self")
  case (Pair e populated)
  have "remote_servers populated = remote_servers self"
    using populateWidgets_remote_servers [of s self] Pair by simp
  with Pair assms show ?thesis
    by (cases e) (simp_all add: loadPreferences_def load_remote_servers_dict)
qed

lemma add_duplicate:
  assumes "(form_protocol self, form_host self, form_port self, form_user self) \<in>
             quadruple ` set (dict_values (remote_servers self))"
  shows "fst (remoteServerAddSlot uuid4 self) \<noteq> None"
    and "form_host self \<noteq> [] \<and> list_all host_char (form_host self) \<Longrightarrow> 1 \<le> form_port self \<Longrightarrow>
         form_protocol self = ssh \<longrightarrow> form_user self \<noteq> [] \<and> form_ssh_key self \<noteq> [] \<Longrightarrow>
         fst (remoteServerAddSlot uuid4 self) = Some AlreadyDefined"
  using assms by (auto simp add: remoteServerAddSlot_def Let_def already_defined_iff host_match_strip)

lemma ssh_page_added:
  "remoteServerAddSlot (UUID 11) ssh_page =
     (None, None,
      ssh_page\<lparr>uiRemoteServersTreeWidget :=
                   [\<lparr>text0 = py ''ssh'', text1 = py ''example.org'', text2 = 8000,
                     text3 = py ''admin'',
                     settings = \<lparr>protocol = py ''ssh'', host = py ''example.org'', port = 8000,
                                 user = py ''admin'', ssh_port = 22,
                                 ssh_key = py ''/home/admin/.ssh/id_rsa''\<rparr>,
                     server_id = UUID 11\<rparr>],
               remote_servers :=
                   [(UUID 11, \<lparr>protocol = py ''ssh'', host = py ''example.org'', port = 8000,
                              user = py ''admin'', ssh_port = 22,
                              ssh_key = py ''/home/admin/.ssh/id_rsa''\<rparr>)],
               uiRemoteServerPortSpinBox := spin 8001\<rparr>)"
  by (simp add: ssh_page_def example_defs add_defs)

section \<open>The claims\<close>

subsection \<open>Saving\<close>

text \<open>
  Claim C1, as amended. With auto-start enabled and valid port ranges, when the
  path is a regular file that is not executable, the not-executable error is the
  first thing reported and \<^verbatim>\<open>savePreferences\<close> goes on. When the settings differ
  and a node is on the local server, the server-in-use message follows and nothing
  is written. Otherwise the other validations pass and the next three calls write
  the new local settings, replace the remote servers and persist; the local server
  is then restarted if the settings differ. The new local settings are the values
  of the widgets and the three keys copied from the current settings. Every other
  validation failure (a port range, a missing path, nodes on the local server) ends
  the save with no write, no stop and no start.
\<close>

theorem save_not_executable_continues:
  "(console_start_port_range (candidate env self) < console_end_port_range (candidate env self) \<and>
    udp_start_port_range (candidate env self) < udp_end_port_range (candidate env self) \<and>
    auto_start (candidate env self) \<and> isfile env (path (candidate env self)) \<and>
    \<not> access_X_OK env (path (candidate env self)) \<longrightarrow>
      savePreferences env self =
        Critical (NotAnExecutable (path (candidate env self))) #
        (if candidate env self \<noteq> localServerSettings env \<and> local_nodes (nodes env) \<noteq> []
         then [MessageBox (CloseProjectOrDeleteNodes (join_newline (local_nodes (nodes env))))]
         else [SetLocalServerSettings (candidate env self),
               UpdateRemoteServers (remote_servers self), Save] @
              (if candidate env self \<noteq> localServerSettings env
               then [StopLocalServer True, StartLocalServer,
                     if startLocalServer env
                     then WaitForConnection (local_host (candidate env self))
                            (local_port (candidate env self))
                     else Critical (CouldNotStartLocalServer (path (candidate env self)))]
               else []))) \<and>
   (console_end_port_range (candidate env self) \<le> console_start_port_range (candidate env self) \<or>
    udp_end_port_range (candidate env self) \<le> udp_start_port_range (candidate env self) \<or>
    auto_start (candidate env self) \<and> \<not> isfile env (path (candidate env self)) \<or>
    auto_start (candidate env self) \<and> candidate env self \<noteq> localServerSettings env \<and>
      local_nodes (nodes env) \<noteq> [] \<longrightarrow>
      filter is_write (savePreferences env self) = [] \<and>
      filter is_stop (savePreferences env self) = [] \<and>
      filter is_start (savePreferences env self) = []) \<and>
   candidate env self =
     \<lparr>path = uiLocalServerPathLineEdit self,
      local_host = currentData (uiLocalServerHostComboBox self),
      local_port = value (uiLocalServerPortSpinBox self),
      auto_start = uiLocalServerAutoStartCheckBox self,
      allow_console_from_anywhere = uiConsoleConnectionsToAnyIPCheckBox self,
      console_start_port_range = value (uiConsoleStartPortSpinBox self),
      console_end_port_range = value (uiConsoleEndPortSpinBox self),
      udp_start_port_range = value (uiUDPStartPortSpinBox self),
      udp_end_port_range = value (uiUDPEndPortSpinBox self),
      images_path = images_path (localServerSettings env),
      projects_path = projects_path (localServerSettings env),
      report_errors = report_errors (localServerSettings env)\<rparr>"
proof (intro conjI)
  show "candidate env self =
     \<lparr>path = uiLocalServerPathLineEdit self,
      local_host = currentData (uiLocalServerHostComboBox self),
      local_port = value (uiLocalServerPortSpinBox self),
      auto_start = uiLocalServerAutoStartCheckBox self,
      allow_console_from_anywhere = uiConsoleConnectionsToAnyIPCheckBox self,
      console_start_port_range = value (uiConsoleStartPortSpinBox self),
      console_end_port_range = value (uiConsoleEndPortSpinBox self),
      udp_start_port_range = value (uiUDPStartPortSpinBox self),
      udp_end_port_range = value (uiUDPEndPortSpinBox self),
      images_path = images_path (localServerSettings env),
      projects_path = projects_path (localServerSettings env),
      report_errors = report_errors (localServerSettings env)\<rparr>"
    by (simp add: new_settings_def)
qed (simp_all add: savePreferences_def save_and_restart_def Let_def)

text \<open>
  Claim C1, at concrete inputs: the server path is a file that is not executable,
  once with the settings unchanged and once with the port of the local server
  changed.
\<close>

theorem save_not_executable_continues_witness:
  "savePreferences (example_env\<lparr>access_X_OK := \<lambda>p. False\<rparr>) example_page =
     [Critical (NotAnExecutable (py ''/usr/bin/gns3server'')),
      SetLocalServerSettings example_settings, UpdateRemoteServers [], Save] \<and>
   savePreferences (example_env\<lparr>access_X_OK := \<lambda>p. False\<rparr>)
     (example_page\<lparr>uiLocalServerPortSpinBox := spin 8001\<rparr>) =
     [Critical (NotAnExecutable (py ''/usr/bin/gns3server'')),
      SetLocalServerSettings (example_settings\<lparr>local_port := 8001\<rparr>), UpdateRemoteServers [], Save,
      StopLocalServer True, StartLocalServer,
      WaitForConnection (Some (py ''127.0.0.1'')) 8001]"
  using save_not_executable_continues [of "example_env\<lparr>access_X_OK := \<lambda>p. False\<rparr>" example_page]
    save_not_executable_continues [of "example_env\<lparr>access_X_OK := \<lambda>p. False\<rparr>"
      "example_page\<lparr>uiLocalServerPortSpinBox := spin 8001\<rparr>"]
  by (simp add: example_defs savePreferences_def save_and_restart_def)

text \<open>
  Claim C1 as stated fails: with auto-start enabled, a server path that is a file
  but not executable, and an invalid console port range, the save reports the
  invalid range and returns before the test of the executable, so the
  not-executable error is not reported.
\<close>

theorem save_not_executable_continues_counterexample:
  "auto_start (candidate (example_env\<lparr>access_X_OK := \<lambda>p. False\<rparr>)
     (example_page\<lparr>uiConsoleEndPortSpinBox := spin 1000\<rparr>)) \<and>
   isfile (example_env\<lparr>access_X_OK := \<lambda>p. False\<rparr>)
     (path (candidate (example_env\<lparr>access_X_OK := \<lambda>p. False\<rparr>)
        (example_page\<lparr>uiConsoleEndPortSpinBox := spin 1000\<rparr>))) \<and>
   \<not> access_X_OK (example_env\<lparr>access_X_OK := \<lambda>p. False\<rparr>)
     (path (candidate (example_env\<lparr>access_X_OK := \<lambda>p. False\<rparr>)
        (example_page\<lparr>uiConsoleEndPortSpinBox := spin 1000\<rparr>))) \<and>
   savePreferences (example_env\<lparr>access_X_OK := \<lambda>p. False\<rparr>)
     (example_page\<lparr>uiConsoleEndPortSpinBox := spin 1000\<rparr>) =
     [Critical (InvalidConsolePortRange 2000 1000)] \<and>
   errors (savePreferences (example_env\<lparr>access_X_OK := \<lambda>p. False\<rparr>)
     (example_page\<lparr>uiConsoleEndPortSpinBox := spin 1000\<rparr>)) = [InvalidRange]"
  by (simp add: example_defs savePreferences_def)

text \<open>
  Claim C2, as amended. With auto-start enabled, candidate settings that differ
  from the current ones and at least one node on the local server,
  \<^verbatim>\<open>savePreferences\<close> writes nothing and neither stops nor starts the local
  server; and when the port ranges are valid and the path is a file, the last thing
  it does is the message box that names the nodes on the local server, one name a
  line.
\<close>

theorem save_blocked_by_local_nodes:
  assumes "auto_start (candidate env self)"
    and "candidate env self \<noteq> localServerSettings env"
    and "local_nodes (nodes env) \<noteq> []"
  shows "filter is_write (savePreferences env self) = [] \<and>
         filter is_stop (savePreferences env self) = [] \<and>
         filter is_start (savePreferences env self) = [] \<and>
         (console_start_port_range (candidate env self) < console_end_port_range (candidate env self) \<and>
          udp_start_port_range (candidate env self) < udp_end_port_range (candidate env self) \<and>
          isfile env (path (candidate env self)) \<longrightarrow>
            last (savePreferences env self) =
              MessageBox (CloseProjectOrDeleteNodes (join_newline (map fst (filter snd (nodes env))))) \<and>
            last (errors (savePreferences env self)) = ServerInUse)"
  using assms by (simp add: savePreferences_def save_and_restart_def Let_def local_nodes_filter)

text \<open>
  Claim C2, at a concrete input: two of three nodes are on the local server and
  the port of the local server was changed.
\<close>

theorem save_blocked_by_local_nodes_witness:
  "savePreferences in_use_env (example_page\<lparr>uiLocalServerPortSpinBox := spin 8001\<rparr>) =
     [MessageBox (CloseProjectOrDeleteNodes (py ''R1'' @ [10] @ py ''R2''))]"
  using save_blocked_by_local_nodes [of in_use_env "example_page\<lparr>uiLocalServerPortSpinBox := spin 8001\<rparr>"]
  by (simp add: example_defs savePreferences_def)

text \<open>
  Claim C2 as stated fails: with an invalid console port range the save reports
  the invalid range and never reaches the test of the nodes, so no server-in-use
  block is reported although auto-start is enabled, the settings differ and nodes
  are on the local server.
\<close>

theorem save_blocked_by_local_nodes_counterexample:
  "auto_start (candidate in_use_env (example_page\<lparr>uiConsoleEndPortSpinBox := spin 1000\<rparr>)) \<and>
   candidate in_use_env (example_page\<lparr>uiConsoleEndPortSpinBox := spin 1000\<rparr>) \<noteq>
     localServerSettings in_use_env \<and>
   local_nodes (nodes in_use_env) \<noteq> [] \<and>
   errors (savePreferences in_use_env (example_page\<lparr>uiConsoleEndPortSpinBox := spin 1000\<rparr>)) =
     [InvalidRange]"
  by (simp add: example_defs savePreferences_def)

text \<open>
  Claim C5. \<^verbatim>\<open>savePreferences\<close> tests the console port range first and the UDP
  port range second. When either end is not above its start, the save reports one
  invalid-range error and does nothing else, so it writes nothing; when both ranges
  are invalid, the error reported is the one of the console range.
\<close>

theorem save_invalid_port_range:
  assumes "console_end_port_range (candidate env self) \<le> console_start_port_range (candidate env self) \<or>
           udp_end_port_range (candidate env self) \<le> udp_start_port_range (candidate env self)"
  shows "savePreferences env self =
           [Critical
              (if console_end_port_range (candidate env self) \<le> console_start_port_range (candidate env self)
               then InvalidConsolePortRange (console_start_port_range (candidate env self))
                      (console_end_port_range (candidate env self))
               else InvalidUDPPortRange (udp_start_port_range (candidate env self))
                      (udp_end_port_range (candidate env self)))] \<and>
         errors (savePreferences env self) = [InvalidRange] \<and>
         filter is_write (savePreferences env self) = []"
proof (cases "console_end_port_range (candidate env self) \<le> console_start_port_range (candidate env self)")
  case True
  then show ?thesis by (simp add: save_console_invalid)
next
  case False
  with assms show ?thesis by (simp add: save_udp_invalid)
qed

text \<open>
  Claim C5, at concrete inputs: both ranges invalid, and only the UDP range
  invalid.
\<close>

theorem save_invalid_port_range_witness:
  "savePreferences example_env
     (example_page\<lparr>uiConsoleEndPortSpinBox := spin 1000, uiUDPEndPortSpinBox := spin 9000\<rparr>) =
     [Critical (InvalidConsolePortRange 2000 1000)] \<and>
   savePreferences example_env (example_page\<lparr>uiUDPEndPortSpinBox := spin 9000\<rparr>) =
     [Critical (InvalidUDPPortRange 10000 9000)]"
  using save_invalid_port_range [of example_env
      "example_page\<lparr>uiConsoleEndPortSpinBox := spin 1000, uiUDPEndPortSpinBox := spin 9000\<rparr>"]
    save_invalid_port_range [of example_env "example_page\<lparr>uiUDPEndPortSpinBox := spin 9000\<rparr>"]
  by (simp add: example_defs)

text \<open>
  Claim C6, as amended. With auto-start enabled and a path that is not an existing
  regular file, \<^verbatim>\<open>savePreferences\<close> writes nothing; and when the port ranges are
  valid it reports that the local server could not be found and does nothing else.
\<close>

theorem save_path_not_found:
  assumes "auto_start (candidate env self)" and "\<not> isfile env (path (candidate env self))"
  shows "filter is_write (savePreferences env self) = [] \<and>
         (console_start_port_range (candidate env self) < console_end_port_range (candidate env self) \<and>
          udp_start_port_range (candidate env self) < udp_end_port_range (candidate env self) \<longrightarrow>
            savePreferences env self = [Critical (CouldNotFindLocalServer (path (candidate env self)))] \<and>
            errors (savePreferences env self) = [ServerPathNotFound])"
  using assms by (simp add: savePreferences_def Let_def)

text \<open>
  Claim C6, at a concrete input: no path is a file.
\<close>

theorem save_path_not_found_witness:
  "savePreferences (example_env\<lparr>isfile := \<lambda>p. False\<rparr>) example_page =
     [Critical (CouldNotFindLocalServer (py ''/usr/bin/gns3server''))]"
  using save_path_not_found [of "example_env\<lparr>isfile := \<lambda>p. False\<rparr>" example_page]
  by (simp add: example_defs)

text \<open>
  Claim C6 as stated fails: with an invalid console port range the save reports
  the invalid range, not the missing path, although auto-start is enabled and the
  path is not a file.
\<close>

theorem save_path_not_found_counterexample:
  "auto_start (candidate (example_env\<lparr>isfile := \<lambda>p. False\<rparr>)
     (example_page\<lparr>uiConsoleEndPortSpinBox := spin 1000\<rparr>)) \<and>
   \<not> isfile (example_env\<lparr>isfile := \<lambda>p. False\<rparr>)
     (path (candidate (example_env\<lparr>isfile := \<lambda>p. False\<rparr>)
        (example_page\<lparr>uiConsoleEndPortSpinBox := spin 1000\<rparr>))) \<and>
   errors (savePreferences (example_env\<lparr>isfile := \<lambda>p. False\<rparr>)
     (example_page\<lparr>uiConsoleEndPortSpinBox := spin 1000\<rparr>)) = [InvalidRange]"
  by (simp add: example_defs savePreferences_def)

text \<open>
  Claim C8, as amended. When the candidate settings equal the current ones,
  \<^verbatim>\<open>savePreferences\<close> never starts the local server and never waits for a
  connection; and when the validations pass (valid port ranges and, with
  auto-start, a path that is a file) it still writes: the local settings, the
  remote servers, and the save to storage, in this order.
\<close>

theorem save_unchanged_settings:
  assumes "candidate env self = localServerSettings env"
  shows "filter is_start (savePreferences env self) = [] \<and>
         filter is_wait (savePreferences env self) = [] \<and>
         (console_start_port_range (candidate env self) < console_end_port_range (candidate env self) \<and>
          udp_start_port_range (candidate env self) < udp_end_port_range (candidate env self) \<and>
          (auto_start (candidate env self) \<longrightarrow> isfile env (path (candidate env self))) \<longrightarrow>
            filter is_write (savePreferences env self) =
              [SetLocalServerSettings (candidate env self),
               UpdateRemoteServers (remote_servers self), Save])"
  using assms by (simp add: savePreferences_def save_and_restart_def Let_def)

text \<open>
  Claim C8, at a concrete input: the page holds exactly the current settings.
\<close>

theorem save_unchanged_settings_witness:
  "candidate example_env example_page = localServerSettings example_env \<and>
   savePreferences example_env example_page =
     [SetLocalServerSettings example_settings, UpdateRemoteServers [], Save]"
  using save_unchanged_settings [of example_env example_page]
  by (simp add: example_defs savePreferences_def save_and_restart_def)

text \<open>
  Claim C8 as stated fails: the page holds exactly the current settings, with
  auto-start enabled, but the server path is no longer a file; the save reports the
  missing path and writes nothing.
\<close>

theorem save_unchanged_settings_counterexample:
  "candidate (example_env\<lparr>isfile := \<lambda>p. False\<rparr>) example_page =
     localServerSettings (example_env\<lparr>isfile := \<lambda>p. False\<rparr>) \<and>
   savePreferences (example_env\<lparr>isfile := \<lambda>p. False\<rparr>) example_page =
     [Critical (CouldNotFindLocalServer (py ''/usr/bin/gns3server''))] \<and>
   filter is_write (savePreferences (example_env\<lparr>isfile := \<lambda>p. False\<rparr>) example_page) = []"
  by (simp add: example_defs savePreferences_def)

text \<open>
  Claim C10, as amended. With auto-start disabled and valid port ranges,
  \<^verbatim>\<open>savePreferences\<close> first stops the local server, waiting for it, and then
  writes the settings, whatever the current settings are (in particular when
  auto-start is already disabled in them). With an invalid port range it neither
  stops the server nor writes.
\<close>

theorem save_without_auto_start:
  assumes "\<not> auto_start (candidate env self)"
  shows "(console_start_port_range (candidate env self) < console_end_port_range (candidate env self) \<and>
          udp_start_port_range (candidate env self) < udp_end_port_range (candidate env self) \<longrightarrow>
            savePreferences env self =
              [StopLocalServer True, SetLocalServerSettings (candidate env self),
               UpdateRemoteServers (remote_servers self), Save]) \<and>
         (console_end_port_range (candidate env self) \<le> console_start_port_range (candidate env self) \<or>
          udp_end_port_range (candidate env self) \<le> udp_start_port_range (candidate env self) \<longrightarrow>
            filter is_stop (savePreferences env self) = [] \<and>
            filter is_write (savePreferences env self) = [])"
  using assms by (simp add: savePreferences_def save_and_restart_def Let_def)

text \<open>
  Claim C10, at a concrete input: auto-start is disabled on the page and in the
  current settings.
\<close>

theorem save_without_auto_start_witness:
  "\<not> auto_start (localServerSettings (example_env\<lparr>localServerSettings := example_settings\<lparr>auto_start := False\<rparr>\<rparr>)) \<and>
   savePreferences (example_env\<lparr>localServerSettings := example_settings\<lparr>auto_start := False\<rparr>\<rparr>)
     (example_page\<lparr>uiLocalServerAutoStartCheckBox := False\<rparr>) =
     [StopLocalServer True, SetLocalServerSettings (example_settings\<lparr>auto_start := False\<rparr>),
      UpdateRemoteServers [], Save]"
  using save_without_auto_start
    [of "example_env\<lparr>localServerSettings := example_settings\<lparr>auto_start := False\<rparr>\<rparr>"
        "example_page\<lparr>uiLocalServerAutoStartCheckBox := False\<rparr>"]
  by (simp add: example_defs)

text \<open>
  Claim C10 as stated fails: with auto-start disabled and an invalid console port
  range the save reports the range and returns before the stop.
\<close>

theorem save_without_auto_start_counterexample:
  "\<not> auto_start (candidate example_env
       (example_page\<lparr>uiLocalServerAutoStartCheckBox := False,
                      uiConsoleEndPortSpinBox := spin 1000\<rparr>)) \<and>
   savePreferences example_env
     (example_page\<lparr>uiLocalServerAutoStartCheckBox := False,
                    uiConsoleEndPortSpinBox := spin 1000\<rparr>) =
     [Critical (InvalidConsolePortRange 2000 1000)] \<and>
   filter is_stop (savePreferences example_env
     (example_page\<lparr>uiLocalServerAutoStartCheckBox := False,
                    uiConsoleEndPortSpinBox := spin 1000\<rparr>)) = []"
  by (simp add: example_defs savePreferences_def)

subsection \<open>Adding a remote server\<close>

text \<open>
  Claim C3, as amended. Adding a server (whatever the outcome) and deleting one
  keep the invariant that no two entries of the candidate set have the same
  protocol, host, port and user. Loading raises \<^verbatim>\<open>OverflowError\<close> and leaves the
  candidate set as it is when one of the five integers of the local settings is
  not a C integer, and otherwise makes the candidate set the collection of the
  servers service: it keeps the invariant when that collection has it. An add whose
  protocol, host, port and user are those of an existing entry never succeeds and
  leaves the page unchanged; it fails with the duplicate-server error whenever the
  host, port and credential tests before the duplicate test pass.
\<close>

theorem unique_quadruples_invariant:
  "(unique_quadruples (remote_servers self) \<longrightarrow>
      unique_quadruples (remote_servers (snd (snd (remoteServerAddSlot uuid4 self))))) \<and>
   (unique_quadruples (remote_servers self) \<longrightarrow>
      unique_quadruples (remote_servers (snd (remoteServerDeleteSlot currentItem self)))) \<and>
   (distinct (map fst remoteServers) \<longrightarrow>
      (fst (loadPreferences local_settings remoteServers self) = None) =
        (c_int (local_port local_settings) \<and> c_int (console_start_port_range local_settings) \<and>
         c_int (console_end_port_range local_settings) \<and>
         c_int (udp_start_port_range local_settings) \<and>
         c_int (udp_end_port_range local_settings)) \<and>
      remote_servers (snd (loadPreferences local_settings remoteServers self)) =
        (if fst (loadPreferences local_settings remoteServers self) = None then remoteServers
         else remote_servers self)) \<and>
   (distinct (map fst remoteServers) \<and> unique_quadruples remoteServers \<and>
    unique_quadruples (remote_servers self) \<longrightarrow>
      unique_quadruples (remote_servers (snd (loadPreferences local_settings remoteServers self)))) \<and>
   ((form_protocol self, form_host self, form_port self, form_user self) \<in>
      quadruple ` set (dict_values (remote_servers self)) \<longrightarrow>
      fst (remoteServerAddSlot uuid4 self) \<noteq> None \<and>
      snd (remoteServerAddSlot uuid4 self) = (None, self) \<and>
      (form_host self \<noteq> [] \<and> list_all host_char (form_host self) \<and> 1 \<le> form_port self \<and>
       (form_protocol self = ssh \<longrightarrow> form_user self \<noteq> [] \<and> form_ssh_key self \<noteq> []) \<longrightarrow>
         fst (remoteServerAddSlot uuid4 self) = Some AlreadyDefined))"
proof (intro conjI impI)
  assume "distinct (map fst remoteServers)"
  then show "remote_servers (snd (loadPreferences local_settings remoteServers self)) =
      (if fst (loadPreferences local_settings remoteServers self) = None then remoteServers
       else remote_servers self)"
    by (rule load_dict)
next
  assume "distinct (map fst remoteServers) \<and> unique_quadruples remoteServers \<and>
    unique_quadruples (remote_servers self)"
  then show "unique_quadruples
      (remote_servers (snd (loadPreferences local_settings remoteServers self)))"
    by (simp add: load_dict)
next
  show "(fst (loadPreferences local_settings remoteServers self) = None) =
      (c_int (local_port local_settings) \<and> c_int (console_start_port_range local_settings) \<and>
       c_int (console_end_port_range local_settings) \<and>
       c_int (udp_start_port_range local_settings) \<and>
       c_int (udp_end_port_range local_settings))"
    by (simp add: load_raises populateWidgets_raises)
qed (use add_keeps_unique delete_keeps_unique add_duplicate add_failure_keeps_page in blast)+

text \<open>
  Claim C3, at a concrete input: an SSH server is added, the port field is put
  back, and the same server is added again.
\<close>

theorem unique_quadruples_invariant_witness:
  "unique_quadruples (remote_servers (snd (snd (remoteServerAddSlot (UUID 11) ssh_page)))) \<and>
   remote_servers (snd (snd (remoteServerAddSlot (UUID 11) ssh_page))) =
     [(UUID 11, \<lparr>protocol = py ''ssh'', host = py ''example.org'', port = 8000,
                 user = py ''admin'', ssh_port = 22, ssh_key = py ''/home/admin/.ssh/id_rsa''\<rparr>)] \<and>
   remoteServerAddSlot (UUID 12)
     ((snd (snd (remoteServerAddSlot (UUID 11) ssh_page)))\<lparr>uiRemoteServerPortSpinBox := spin 8000\<rparr>) =
     (Some AlreadyDefined, None,
      (snd (snd (remoteServerAddSlot (UUID 11) ssh_page)))\<lparr>uiRemoteServerPortSpinBox := spin 8000\<rparr>)"
proof -
  let ?p = "(snd (snd (remoteServerAddSlot (UUID 11) ssh_page)))
              \<lparr>uiRemoteServerPortSpinBox := spin 8000\<rparr>"
  have u: "unique_quadruples (remote_servers ssh_page)"
    by (simp add: ssh_page_def example_page_def unique_quadruples_def dict_values_def)
  have q: "(form_protocol ?p, form_host ?p, form_port ?p, form_user ?p) \<in>
             quadruple ` set (dict_values (remote_servers ?p))"
    by (simp add: ssh_page_added)
      (simp add: ssh_page_def example_defs add_defs quadruple_def)
  have v: "form_host ?p \<noteq> [] \<and> list_all host_char (form_host ?p) \<and> 1 \<le> form_port ?p \<and>
           (form_protocol ?p = ssh \<longrightarrow> form_user ?p \<noteq> [] \<and> form_ssh_key ?p \<noteq> [])"
    by (simp add: ssh_page_added)
      (simp add: ssh_page_def example_defs add_defs)
  from unique_quadruples_invariant [of ssh_page "UUID 11"] u
  have "unique_quadruples (remote_servers (snd (snd (remoteServerAddSlot (UUID 11) ssh_page))))"
    by blast
  moreover from unique_quadruples_invariant [of ?p "UUID 12"] q v
  have "fst (remoteServerAddSlot (UUID 12) ?p) = Some AlreadyDefined \<and>
        snd (remoteServerAddSlot (UUID 12) ?p) = (None, ?p)"
    by blast
  then have "remoteServerAddSlot (UUID 12) ?p = (Some AlreadyDefined, None, ?p)"
    by (metis prod.collapse)
  moreover have "remote_servers (snd (snd (remoteServerAddSlot (UUID 11) ssh_page))) =
     [(UUID 11, \<lparr>protocol = py ''ssh'', host = py ''example.org'', port = 8000,
                 user = py ''admin'', ssh_port = 22, ssh_key = py ''/home/admin/.ssh/id_rsa''\<rparr>)]"
    by (simp add: ssh_page_added)
  ultimately show ?thesis by simp
qed

text \<open>
  Claim C3 as stated fails twice. After an SSH server was added, a second add with
  the same protocol, host, port and user but an empty key field fails with the
  missing SSH key error, not with the duplicate-server error. And loading a
  collection of the servers service that holds the same protocol, host, port and
  user under two identifiers gives a candidate set without the invariant, from a
  page that had it.
\<close>

theorem unique_quadruples_invariant_counterexample:
  "fst (remoteServerAddSlot (UUID 11) ssh_page) = None \<and>
   (form_protocol ssh_page_again, form_host ssh_page_again, form_port ssh_page_again,
    form_user ssh_page_again) \<in> quadruple ` set (dict_values (remote_servers ssh_page_again)) \<and>
   remoteServerAddSlot (UUID 12) ssh_page_again = (Some MissingSSHKey, None, ssh_page_again) \<and>
   error_of MissingSSHKey \<noteq> DuplicateServer \<and>
   unique_quadruples (remote_servers example_page) \<and>
   distinct (map fst duplicate_servers) \<and>
   fst (loadPreferences example_settings duplicate_servers example_page) = None \<and>
   remote_servers (snd (loadPreferences example_settings duplicate_servers example_page)) =
     duplicate_servers \<and>
   \<not> unique_quadruples
       (remote_servers (snd (loadPreferences example_settings duplicate_servers example_page)))"
proof -
  have a: "fst (remoteServerAddSlot (UUID 11) ssh_page) = None \<and>
    (form_protocol ssh_page_again, form_host ssh_page_again, form_port ssh_page_again,
     form_user ssh_page_again) \<in> quadruple ` set (dict_values (remote_servers ssh_page_again)) \<and>
    remoteServerAddSlot (UUID 12) ssh_page_again = (Some MissingSSHKey, None, ssh_page_again)"
    by (simp add: ssh_page_again_def ssh_page_added)
      (simp add: ssh_page_def example_defs add_defs quadruple_def)
  have d: "distinct (map fst duplicate_servers)"
    by (simp add: duplicate_servers_def py_def)
  have n: "fst (loadPreferences example_settings duplicate_servers example_page) = None"
    by (simp add: load_raises populateWidgets_raises example_settings_def c_int_def)
  have l: "remote_servers (snd (loadPreferences example_settings duplicate_servers example_page)) =
      duplicate_servers"
    using load_dict [OF d, of example_settings example_page] n by simp
  have u: "\<not> unique_quadruples duplicate_servers"
    by (simp add: unique_quadruples_def dict_values_def duplicate_servers_def quadruple_def)
  have e: "unique_quadruples (remote_servers example_page)"
    by (simp add: unique_quadruples_def dict_values_def example_page_def)
  show ?thesis using a d n l u e by simp
qed

text \<open>
  Claim C4, as amended. When the protocol is ssh and the stripped user or the
  stripped key is empty, the add fails, raises nothing and leaves the page
  unchanged (the candidate set, the tree and the port field with it); it fails with
  the missing-credential error whenever the host is accepted and the port is at
  least 1.
\<close>

theorem add_ssh_missing_credential:
  assumes "form_protocol self = ssh" and "form_user self = [] \<or> form_ssh_key self = []"
  shows "snd (remoteServerAddSlot uuid4 self) = (None, self) \<and>
         fst (remoteServerAddSlot uuid4 self) \<noteq> None \<and>
         (form_host self \<noteq> [] \<and> list_all host_char (form_host self) \<and> 1 \<le> form_port self \<longrightarrow>
            map_option error_of (fst (remoteServerAddSlot uuid4 self)) = Some MissingCredential)"
  using assms by (auto simp add: remoteServerAddSlot_def Let_def host_match_strip)

text \<open>
  Claim C4, at a concrete input: an SSH server whose key field holds one space.
\<close>

theorem add_ssh_missing_credential_witness:
  "form_protocol (ssh_page\<lparr>uiRemoteServerSSHKeyLineEdit := py '' ''\<rparr>) = ssh \<and>
   form_ssh_key (ssh_page\<lparr>uiRemoteServerSSHKeyLineEdit := py '' ''\<rparr>) = [] \<and>
   remoteServerAddSlot (UUID 11) (ssh_page\<lparr>uiRemoteServerSSHKeyLineEdit := py '' ''\<rparr>) =
     (Some MissingSSHKey, None, ssh_page\<lparr>uiRemoteServerSSHKeyLineEdit := py '' ''\<rparr>)"
  using add_ssh_missing_credential [of "ssh_page\<lparr>uiRemoteServerSSHKeyLineEdit := py '' ''\<rparr>" "UUID 11"]
  by (simp add: ssh_page_def example_defs add_defs)

text \<open>
  Claim C4 as stated fails: with the protocol ssh, an empty user and a host with
  an underscore, the add fails with the invalid-host error, which is tested first.
\<close>

theorem add_ssh_missing_credential_counterexample:
  "form_protocol (ssh_page\<lparr>uiRemoteServerPortLineEdit := py ''my_host'',
                            uiRemoteServerUserLineEdit := []\<rparr>) = ssh \<and>
   form_user (ssh_page\<lparr>uiRemoteServerPortLineEdit := py ''my_host'',
                        uiRemoteServerUserLineEdit := []\<rparr>) = [] \<and>
   map_option error_of
     (fst (remoteServerAddSlot (UUID 11)
        (ssh_page\<lparr>uiRemoteServerPortLineEdit := py ''my_host'',
                   uiRemoteServerUserLineEdit := []\<rparr>))) = Some InvalidHost"
  by (simp add: ssh_page_def example_defs add_defs)

text \<open>
  Claim C7, as amended. After a successful add the tree has one more row, the
  last, with the texts, settings and identifier of the new server. The new settings
  are stored under the identifier \<^verbatim>\<open>uuid4\<close> returned, which the slot does not
  compare with the keys of the candidate set: when it is not a key, the candidate
  set is the old one with the new entry appended; when it is a key, the new
  settings replace the ones stored under it and the keys stay the same. Either way
  the new settings occur in the candidate set exactly once and the entries under
  all other identifiers are unchanged. The port field is given the port plus one,
  which the spin box brings into its range: on a spin box as Qt keeps it, the port
  field is one higher when the port is below the maximum and unchanged when the
  port is the maximum (\<^verbatim>\<open>setValue\<close> raising \<^verbatim>\<open>OverflowError\<close> when the port plus
  one is not a C integer). No other field of the page changes.
\<close>

theorem add_success:
  assumes "fst (remoteServerAddSlot uuid4 self) = None"
  shows "uiRemoteServersTreeWidget (snd (snd (remoteServerAddSlot uuid4 self))) =
           uiRemoteServersTreeWidget self @
             [\<lparr>text0 = form_protocol self, text1 = form_host self, text2 = form_port self,
               text3 = form_user self, settings = form_settings self, server_id = uuid4\<rparr>] \<and>
         (uuid4, form_settings self) \<in>
           set (remote_servers (snd (snd (remoteServerAddSlot uuid4 self)))) \<and>
         length (filter (\<lambda>e. snd e = form_settings self)
                   (remote_servers (snd (snd (remoteServerAddSlot uuid4 self))))) = 1 \<and>
         filter (\<lambda>e. fst e \<noteq> uuid4) (remote_servers (snd (snd (remoteServerAddSlot uuid4 self)))) =
           filter (\<lambda>e. fst e \<noteq> uuid4) (remote_servers self) \<and>
         (uuid4 \<notin> fst ` set (remote_servers self) \<longrightarrow>
            remote_servers (snd (snd (remoteServerAddSlot uuid4 self))) =
              remote_servers self @ [(uuid4, form_settings self)]) \<and>
         (uuid4 \<in> fst ` set (remote_servers self) \<longrightarrow>
            map fst (remote_servers (snd (snd (remoteServerAddSlot uuid4 self)))) =
              map fst (remote_servers self)) \<and>
         uiRemoteServerPortSpinBox (snd (snd (remoteServerAddSlot uuid4 self))) =
           (if c_int (form_port self + 1)
            then (uiRemoteServerPortSpinBox self)
                   \<lparr>value := max (minimum (uiRemoteServerPortSpinBox self))
                               (min (maximum (uiRemoteServerPortSpinBox self)) (form_port self + 1))\<rparr>
            else uiRemoteServerPortSpinBox self) \<and>
         fst (snd (remoteServerAddSlot uuid4 self)) =
           (if c_int (form_port self + 1) then None else Some OverflowError) \<and>
         (valid_spin_box (uiRemoteServerPortSpinBox self) \<longrightarrow>
            value (uiRemoteServerPortSpinBox (snd (snd (remoteServerAddSlot uuid4 self)))) =
              (if form_port self < maximum (uiRemoteServerPortSpinBox self)
               then form_port self + 1 else form_port self)) \<and>
         snd (snd (remoteServerAddSlot uuid4 self)) =
           self\<lparr>uiRemoteServersTreeWidget :=
                   uiRemoteServersTreeWidget (snd (snd (remoteServerAddSlot uuid4 self))),
                 remote_servers := remote_servers (snd (snd (remoteServerAddSlot uuid4 self))),
                 uiRemoteServerPortSpinBox :=
                   uiRemoteServerPortSpinBox (snd (snd (remoteServerAddSlot uuid4 self)))\<rparr>"
proof -
  have "form_settings self \<notin> snd ` set (remote_servers self)"
    using add_success_not_present [OF assms] by blast
  then have once: "length (filter (\<lambda>e. snd e = form_settings self)
                (dict_set uuid4 (form_settings self) (remote_servers self))) = 1"
    by (rule dict_set_once)
  have port: "1 \<le> form_port self" by (rule add_success_page(3) [OF assms])
  have spin: "valid_spin_box (uiRemoteServerPortSpinBox self) \<longrightarrow>
      value (if c_int (form_port self + 1)
             then (uiRemoteServerPortSpinBox self)
                    \<lparr>value := max (minimum (uiRemoteServerPortSpinBox self))
                                (min (maximum (uiRemoteServerPortSpinBox self)) (form_port self + 1))\<rparr>
             else uiRemoteServerPortSpinBox self) =
      (if form_port self < maximum (uiRemoteServerPortSpinBox self)
       then form_port self + 1 else form_port self)"
    using port by (auto simp add: valid_spin_box_def c_int_def)
  show ?thesis
    using once spin
    by (simp add: add_success_page(1) [OF assms] dict_set_mem dict_set_fresh dict_set_others
        dict_set_keys)
qed

text \<open>
  Claim C7, at a concrete input: an SSH server on port 8000 is added to an empty
  candidate set.
\<close>

theorem add_success_witness:
  "fst (remoteServerAddSlot (UUID 11) ssh_page) = None \<and>
   remote_servers (snd (snd (remoteServerAddSlot (UUID 11) ssh_page))) =
     [(UUID 11, \<lparr>protocol = py ''ssh'', host = py ''example.org'', port = 8000,
                 user = py ''admin'', ssh_port = 22, ssh_key = py ''/home/admin/.ssh/id_rsa''\<rparr>)] \<and>
   value (uiRemoteServerPortSpinBox (snd (snd (remoteServerAddSlot (UUID 11) ssh_page)))) = 8001 \<and>
   fst (snd (remoteServerAddSlot (UUID 11) ssh_page)) = None"
proof -
  have s: "fst (remoteServerAddSlot (UUID 11) ssh_page) = None"
    by (simp add: ssh_page_added)
  have fresh: "UUID 11 \<notin> fst ` set (remote_servers ssh_page)"
    by (simp add: ssh_page_def example_page_def)
  have valid: "valid_spin_box (uiRemoteServerPortSpinBox ssh_page)"
    and below: "form_port ssh_page < maximum (uiRemoteServerPortSpinBox ssh_page)"
    and c: "c_int (form_port ssh_page + 1)"
    and p: "form_port ssh_page = 8000" and d: "remote_servers ssh_page = []"
    by (simp_all add: ssh_page_def example_page_def spin_def valid_spin_box_def c_int_def)
  have fs: "form_settings ssh_page =
      \<lparr>protocol = py ''ssh'', host = py ''example.org'', port = 8000,
       user = py ''admin'', ssh_port = 22, ssh_key = py ''/home/admin/.ssh/id_rsa''\<rparr>"
    by (simp add: form_settings_def ssh_page_def example_defs add_defs)
  note t = add_success [OF s]
  from t fresh
  have "remote_servers (snd (snd (remoteServerAddSlot (UUID 11) ssh_page))) =
          remote_servers ssh_page @ [(UUID 11, form_settings ssh_page)]"
    by blast
  moreover from t valid below
  have "value (uiRemoteServerPortSpinBox (snd (snd (remoteServerAddSlot (UUID 11) ssh_page)))) =
          form_port ssh_page + 1"
    by metis
  moreover from t c
  have "fst (snd (remoteServerAddSlot (UUID 11) ssh_page)) = None"
    by metis
  ultimately show ?thesis using s by (simp add: fs p d)
qed

text \<open>
  Claim C7 as stated fails twice. With the port field at the maximum of the spin
  box, 65535, the add succeeds and the port field still holds 65535. And when
  \<^verbatim>\<open>uuid4\<close> returns an identifier that is already a key, the add succeeds, the
  identifier is not distinct from the ones in the candidate set, and the server
  stored under it (port 8000) is replaced by the new one (port 8001).
\<close>

theorem add_success_counterexample:
  "fst (remoteServerAddSlot (UUID 11) (example_page\<lparr>uiRemoteServerPortSpinBox := spin 65535\<rparr>)) = None \<and>
   form_port (example_page\<lparr>uiRemoteServerPortSpinBox := spin 65535\<rparr>) = 65535 \<and>
   form_port (snd (snd (remoteServerAddSlot (UUID 11)
     (example_page\<lparr>uiRemoteServerPortSpinBox := spin 65535\<rparr>)))) = 65535 \<and>
   remote_servers collision_page =
     [(UUID 11, \<lparr>protocol = py ''ssh'', host = py ''example.org'', port = 8000,
                 user = py ''admin'', ssh_port = 22, ssh_key = py ''/home/admin/.ssh/id_rsa''\<rparr>)] \<and>
   fst (remoteServerAddSlot (UUID 11) collision_page) = None \<and>
   remote_servers (snd (snd (remoteServerAddSlot (UUID 11) collision_page))) =
     [(UUID 11, \<lparr>protocol = py ''ssh'', host = py ''example.org'', port = 8001,
                 user = py ''admin'', ssh_port = 22, ssh_key = py ''/home/admin/.ssh/id_rsa''\<rparr>)]"
proof -
  have "fst (remoteServerAddSlot (UUID 11) (example_page\<lparr>uiRemoteServerPortSpinBox := spin 65535\<rparr>)) = None \<and>
    form_port (example_page\<lparr>uiRemoteServerPortSpinBox := spin 65535\<rparr>) = 65535 \<and>
    form_port (snd (snd (remoteServerAddSlot (UUID 11)
      (example_page\<lparr>uiRemoteServerPortSpinBox := spin 65535\<rparr>)))) = 65535"
    by (simp add: example_defs add_defs)
  moreover have "remote_servers collision_page =
     [(UUID 11, \<lparr>protocol = py ''ssh'', host = py ''example.org'', port = 8000,
                 user = py ''admin'', ssh_port = 22, ssh_key = py ''/home/admin/.ssh/id_rsa''\<rparr>)]"
    by (simp add: collision_page_def ssh_page_added)
  moreover have "fst (remoteServerAddSlot (UUID 11) collision_page) = None \<and>
    remote_servers (snd (snd (remoteServerAddSlot (UUID 11) collision_page))) =
     [(UUID 11, \<lparr>protocol = py ''ssh'', host = py ''example.org'', port = 8001,
                 user = py ''admin'', ssh_port = 22, ssh_key = py ''/home/admin/.ssh/id_rsa''\<rparr>)]"
    by (simp add: collision_page_def ssh_page_added)
      (simp add: ssh_page_def example_defs add_defs)
  ultimately show ?thesis by simp
qed

text \<open>
  Claim C9, as amended. The add fails with the invalid-host error exactly when the
  stripped host is empty or has a character outside the class of the pattern, and
  with the invalid-port error exactly when the host is accepted and the port is
  below 1.
\<close>

theorem add_host_and_port_validation:
  "((map_option error_of (fst (remoteServerAddSlot uuid4 self)) = Some InvalidHost) =
      (\<not> (form_host self \<noteq> [] \<and> list_all host_char (form_host self)))) \<and>
   ((map_option error_of (fst (remoteServerAddSlot uuid4 self)) = Some InvalidPort) =
      ((form_host self \<noteq> [] \<and> list_all host_char (form_host self)) \<and> form_port self < 1))"
  by (simp add: remoteServerAddSlot_def Let_def host_match_strip split: sum.splits)

text \<open>
  Claim C9, at concrete inputs: a host with an underscore, and the port 0 with an
  accepted host.
\<close>

theorem add_host_and_port_validation_witness:
  "map_option error_of
     (fst (remoteServerAddSlot (UUID 11) (example_page\<lparr>uiRemoteServerPortLineEdit := py ''my_host''\<rparr>))) =
     Some InvalidHost \<and>
   map_option error_of
     (fst (remoteServerAddSlot (UUID 11) (example_page\<lparr>uiRemoteServerPortSpinBox := spin 0\<rparr>))) =
     Some InvalidPort"
  using add_host_and_port_validation
      [of "UUID 11" "example_page\<lparr>uiRemoteServerPortLineEdit := py ''my_host''\<rparr>"]
    add_host_and_port_validation
      [of "UUID 11" "example_page\<lparr>uiRemoteServerPortSpinBox := spin 0\<rparr>"]
  by (simp add: example_defs add_defs)

text \<open>
  Claim C9 as stated fails: with the port 0 and a host with an underscore the add
  fails with the invalid-host error, not the invalid-port error.
\<close>

theorem add_host_and_port_validation_counterexample:
  "form_port (example_page\<lparr>uiRemoteServerPortLineEdit := py ''my_host'',
                           uiRemoteServerPortSpinBox := spin 0\<rparr>) < 1 \<and>
   map_option error_of
     (fst (remoteServerAddSlot (UUID 11)
        (example_page\<lparr>uiRemoteServerPortLineEdit := py ''my_host'',
                       uiRemoteServerPortSpinBox := spin 0\<rparr>))) = Some InvalidHost"
  by (simp add: example_defs add_defs)

end
